theory Spec2Isabelle
  imports Main "HOL-Library.Word" "HOL-Library.Monad_Syntax" "HOL-Library.List_Lexorder"
    "HOL-Library.Char_ord" "HOL-Library.Multiset"
begin

unbundle bit_operations_syntax

section \<open>Go integer arithmetic\<close>

text \<open>
  Go's \<open>int\<close> is modelled as \<open>int\<close>. Go's \<open>/\<close> truncates towards zero, HOL's
  \<open>div\<close> rounds down; \<open>go_div\<close> is Go's operator.
\<close>

definition go_div :: "int \<Rightarrow> int \<Rightarrow> int" where
  "go_div a b = (if (a < 0) = (b < 0) then \<bar>a\<bar> div \<bar>b\<bar> else - (\<bar>a\<bar> div \<bar>b\<bar>))"

section \<open>JPEG-LS parameters (internal/jpegls/params.go)\<close>

text \<open>\<open>clamp(val, minVal, maxVal)\<close> returns \<open>max(minVal, min(val, maxVal))\<close>.\<close>

definition clamp :: "int \<Rightarrow> int \<Rightarrow> int \<Rightarrow> int" where
  "clamp val minVal maxVal = max minVal (min val maxVal)"

definition calculateThresholds :: "int \<Rightarrow> int \<Rightarrow> int \<times> int \<times> int" where
  "calculateThresholds maxVal near =
     (if maxVal \<ge> 128 then
        (let factor = (if maxVal > 4095 then 4095 else maxVal);
             t1 = clamp (near + 1 + go_div factor 256) (near + 1) maxVal;
             t2 = clamp (near + 1 + go_div factor 64) t1 maxVal;
             t3 = clamp (near + 1 + go_div factor 16) t2 maxVal
         in (t1, t2, t3))
      else
        (let t1 = clamp (near + 1 + max (go_div (maxVal + 1) 16) 1) (near + 1) maxVal;
             t2 = clamp (near + 1 + max (go_div (maxVal + 1) 8) 1) t1 maxVal;
             t3 = clamp (near + 1 + max (go_div (maxVal + 1) 4) 1) t2 maxVal
         in (t1, t2, t3)))"

text \<open>
  The thresholds as the specification words them for \<open>NEAR = 0\<close>: the small-\<open>MAXVAL\<close>
  branch adds \<open>(MAXVAL+1)/16\<close>, \<open>(MAXVAL+1)/8\<close>, \<open>(MAXVAL+1)/4\<close> with no lower bound on
  the addend.
\<close>

definition spec_thresholds :: "int \<Rightarrow> int \<times> int \<times> int" where
  "spec_thresholds maxVal =
     (if maxVal \<ge> 128 then
        (let factor = min maxVal 4095;
             t1 = clamp (1 + factor div 256) 1 maxVal;
             t2 = clamp (1 + factor div 64) t1 maxVal;
             t3 = clamp (1 + factor div 16) t2 maxVal
         in (t1, t2, t3))
      else
        (let t1 = clamp (1 + (maxVal + 1) div 16) 1 maxVal;
             t2 = clamp (1 + (maxVal + 1) div 8) t1 maxVal;
             t3 = clamp (1 + (maxVal + 1) div 4) t2 maxVal
         in (t1, t2, t3)))"

section \<open>Identity normalisation and hashing (internal/identity/hash.go)\<close>

definition isSpace :: "char \<Rightarrow> bool" where
  "isSpace c = (c \<in> set [CHR 0x09, CHR 0x0A, CHR 0x0B, CHR 0x0C, CHR 0x0D, CHR '' ''])"

definition TrimSpace :: "string \<Rightarrow> string" where
  "TrimSpace s = rev (dropWhile isSpace (rev (dropWhile isSpace s)))"

definition toUpperChar :: "char \<Rightarrow> char" where
  "toUpperChar c =
     (case map_of (zip ''abcdefghijklmnopqrstuvwxyz'' ''ABCDEFGHIJKLMNOPQRSTUVWXYZ'') c of
        Some u \<Rightarrow> u | None \<Rightarrow> c)"

definition toLowerChar :: "char \<Rightarrow> char" where
  "toLowerChar c =
     (case map_of (zip ''ABCDEFGHIJKLMNOPQRSTUVWXYZ'' ''abcdefghijklmnopqrstuvwxyz'') c of
        Some l \<Rightarrow> l | None \<Rightarrow> c)"

definition ReplaceAll :: "string \<Rightarrow> char \<Rightarrow> char \<Rightarrow> string" where
  "ReplaceAll s old new = map (\<lambda>c. if c = old then new else c) s"

definition nonAlphaRegex_keeps :: "char \<Rightarrow> bool" where
  "nonAlphaRegex_keeps c =
     (c \<in> set ''ABCDEFGHIJKLMNOPQRSTUVWXYZ''
      \<or> c \<in> set [CHR 0x09, CHR 0x0A, CHR 0x0C, CHR 0x0D, CHR '' ''])"

fun Fields_from :: "string \<Rightarrow> string \<Rightarrow> string list" where
  "Fields_from cur [] = (if cur = [] then [] else [cur])"
| "Fields_from cur (c # cs) =
     (if isSpace c then (if cur = [] then Fields_from [] cs else cur # Fields_from [] cs)
      else Fields_from (cur @ [c]) cs)"

definition Fields :: "string \<Rightarrow> string list" where
  "Fields s = Fields_from [] s"

definition NormalizeName :: "string \<Rightarrow> string" where
  "NormalizeName name =
     (if name = [] then []
      else
        (let name1 = map toUpperChar name;
             name2 = ReplaceAll name1 (CHR ''^'') (CHR '' '');
             name3 = ReplaceAll name2 (CHR '','') (CHR '' '');
             name4 = filter nonAlphaRegex_keeps name3;
             parts = sort (Fields name4)
         in concat parts))"

definition CreateIdentityHash :: "(string \<Rightarrow> string) \<Rightarrow> string \<Rightarrow> string \<Rightarrow> string \<Rightarrow> string" where
  "CreateIdentityHash sha256_hex12 name dob salt =
     (let nameNormalized = NormalizeName name;
          dobStr = TrimSpace dob
      in sha256_hex12 (nameNormalized @ ''|'' @ dobStr @ ''|'' @ salt))"

definition PlaceholderNames :: "string list" where
  "PlaceholderNames = ['''', ''unknown'', ''no name'', ''noname'', ''anonymous'', ''test'', ''patient'']"

definition PlaceholderDOBs :: "string list" where
  "PlaceholderDOBs = ['''', ''00000000'', ''11111111'', ''19000101'', ''99999999'']"

definition IsValidIdentity :: "string \<Rightarrow> string \<Rightarrow> bool" where
  "IsValidIdentity name dob =
     (let nameNormalized = map toLowerChar (NormalizeName name);
          dobStr = TrimSpace dob
      in if nameNormalized \<in> set PlaceholderNames \<or> length nameNormalized < 3 then False
         else if dobStr \<in> set PlaceholderDOBs \<or> length dobStr \<noteq> 8 then False
         else True)"


section \<open>Files\<close>

record ReverseMapEntry =
  IdentityHashes :: "string list"
  PatientIDs :: "string list"

record MapperData =
  doc_IdentityMap :: "(string \<rightharpoonup> string) option"
  doc_PIDMap :: "(string \<rightharpoonup> string) option"
  doc_ReverseMap :: "(string \<rightharpoonup> ReverseMapEntry) option"
  doc_Counter :: int

record FileEntry =
  Status :: string
  Hash :: string
  Output :: string
  Error :: string

datatype file_content =
    MappingDoc MapperData
  | ProgressDoc "string \<rightharpoonup> FileEntry"
  | Unparseable

record world =
  files :: "string \<rightharpoonup> file_content"
  write_fails :: "string \<Rightarrow> bool"
  stat :: "string \<rightharpoonup> int \<times> int"
  metadata :: "string \<rightharpoonup> string \<times> string \<times> string"
  accepted :: "string list"

section \<open>Pseudonymization mapper (internal/identity/mapper.go)\<close>

datatype MatchMethod = MatchIdentity | MatchPID | MatchNone

record PseudonymizationMapper =
  mappingFile :: string
  salt :: string
  identityMap :: "string \<rightharpoonup> string"
  pidMap :: "string \<rightharpoonup> string"
  reverseMap :: "string \<rightharpoonup> ReverseMapEntry"
  counter :: int

fun decimal :: "nat \<Rightarrow> string" where
  "decimal n = (if n < 10 then [''0123456789'' ! n]
                else decimal (n div 10) @ [''0123456789'' ! (n mod 10)])"

declare decimal.simps [simp del]

definition zero_pad :: "nat \<Rightarrow> string \<Rightarrow> string" where
  "zero_pad w s = replicate (w - length s) (CHR ''0'') @ s"

definition Sprintf_06d :: "int \<Rightarrow> string" where
  "Sprintf_06d i = (if i < 0 then ''-'' @ zero_pad 5 (decimal (nat (- i)))
                    else zero_pad 6 (decimal (nat i)))"

definition load_mapper :: "PseudonymizationMapper \<Rightarrow> world \<Rightarrow> PseudonymizationMapper" where
  "load_mapper m w =
     (case files w (mappingFile m) of
        None \<Rightarrow> m
      | Some Unparseable \<Rightarrow> m
      | Some (ProgressDoc _) \<Rightarrow>
          m\<lparr>identityMap := Map.empty, pidMap := Map.empty, reverseMap := Map.empty, counter := 0\<rparr>
      | Some (MappingDoc mapData) \<Rightarrow>
          m\<lparr>identityMap := (case doc_IdentityMap mapData of None \<Rightarrow> Map.empty | Some im \<Rightarrow> im),
            pidMap := (case doc_PIDMap mapData of None \<Rightarrow> Map.empty | Some pm \<Rightarrow> pm),
            reverseMap := (case doc_ReverseMap mapData of None \<Rightarrow> Map.empty | Some rm \<Rightarrow> rm),
            counter := doc_Counter mapData\<rparr>)"

definition NewPseudonymizationMapper :: "string \<Rightarrow> string \<Rightarrow> world \<Rightarrow> PseudonymizationMapper" where
  "NewPseudonymizationMapper mf s w =
     (let m = \<lparr>mappingFile = mf, salt = s, identityMap = Map.empty, pidMap = Map.empty,
               reverseMap = Map.empty, counter = 0\<rparr>
      in if mf \<noteq> [] then load_mapper m w else m)"

definition save_mapper :: "PseudonymizationMapper \<Rightarrow> world \<Rightarrow> world" where
  "save_mapper m w =
     (if mappingFile m = [] then w
      else if write_fails w (mappingFile m) then w
      else w\<lparr>files := (files w)(mappingFile m \<mapsto>
             MappingDoc \<lparr>doc_IdentityMap = Some (identityMap m), doc_PIDMap = Some (pidMap m),
                         doc_ReverseMap = Some (reverseMap m), doc_Counter = counter m\<rparr>)\<rparr>)"

definition generateID :: "PseudonymizationMapper \<Rightarrow> string \<times> PseudonymizationMapper" where
  "generateID m = (''ANON-'' @ Sprintf_06d (counter m + 1), m\<lparr>counter := counter m + 1\<rparr>)"

definition updateReverseMap ::
  "PseudonymizationMapper \<Rightarrow> string \<Rightarrow> string \<Rightarrow> string \<Rightarrow> PseudonymizationMapper" where
  "updateReverseMap m anonID identityHash patientID =
     (let entry = (case reverseMap m anonID of
                     None \<Rightarrow> \<lparr>IdentityHashes = [], PatientIDs = []\<rparr>
                   | Some e \<Rightarrow> e);
          entry1 = (if identityHash \<noteq> [] \<and> identityHash \<notin> set (IdentityHashes entry)
                    then entry\<lparr>IdentityHashes := IdentityHashes entry @ [identityHash]\<rparr>
                    else entry);
          entry2 = (if patientID \<noteq> [] \<and> patientID \<notin> set (PatientIDs entry1)
                    then entry1\<lparr>PatientIDs := PatientIDs entry1 @ [patientID]\<rparr>
                    else entry1)
      in m\<lparr>reverseMap := (reverseMap m)(anonID \<mapsto> entry2)\<rparr>)"


definition set_identity :: "PseudonymizationMapper \<Rightarrow> string \<Rightarrow> string \<Rightarrow> PseudonymizationMapper" where
  "set_identity m identityHash anonID = m\<lparr>identityMap := (identityMap m)(identityHash \<mapsto> anonID)\<rparr>"

definition set_pid :: "PseudonymizationMapper \<Rightarrow> string \<Rightarrow> string \<Rightarrow> PseudonymizationMapper" where
  "set_pid m patientID anonID = m\<lparr>pidMap := (pidMap m)(patientID \<mapsto> anonID)\<rparr>"


definition GetAnonID_pid ::
  "PseudonymizationMapper \<Rightarrow> world \<Rightarrow> string
     \<Rightarrow> (string \<times> MatchMethod) \<times> PseudonymizationMapper \<times> world" where
  "GetAnonID_pid m w patientID =
        (case pidMap m patientID of
           Some anonID \<Rightarrow> ((anonID, MatchPID), m, w)
         | None \<Rightarrow>
             (let g = generateID m;
                  anonID = fst g;
                  m2 = set_pid (snd g) patientID anonID;
                  m3 = updateReverseMap m2 anonID [] patientID
              in ((anonID, MatchPID), m3, save_mapper m3 w)))"


definition GetAnonID_identity ::
  "PseudonymizationMapper \<Rightarrow> world \<Rightarrow> string \<Rightarrow> string
     \<Rightarrow> (string \<times> MatchMethod) \<times> PseudonymizationMapper \<times> world" where
  "GetAnonID_identity m w patientID identityHash =
         (case identityMap m identityHash of
              Some anonID \<Rightarrow>
                (if patientID \<noteq> [] \<and> pidMap m patientID = None
                 then (let m1 = set_pid m patientID anonID
                       in ((anonID, MatchIdentity), m1, save_mapper m1 w))
                 else ((anonID, MatchIdentity), m, w))
            | None \<Rightarrow>
                (case pidMap m patientID of
                   Some anonID \<Rightarrow>
                     (let m1 = set_identity m identityHash anonID;
                          m2 = updateReverseMap m1 anonID identityHash patientID
                      in ((anonID, MatchIdentity), m2, save_mapper m2 w))
                 | None \<Rightarrow>
                     (let g = generateID m;
                          anonID = fst g;
                          m2 = set_identity (snd g) identityHash anonID;
                          m3 = (if patientID \<noteq> [] then set_pid m2 patientID anonID else m2);
                          m4 = updateReverseMap m3 anonID identityHash patientID
                      in ((anonID, MatchIdentity), m4, save_mapper m4 w))))"


definition GetAnonID ::
  "(string \<Rightarrow> string) \<Rightarrow> PseudonymizationMapper \<Rightarrow> world \<Rightarrow> string \<Rightarrow> string \<Rightarrow> string
     \<Rightarrow> (string \<times> MatchMethod) \<times> PseudonymizationMapper \<times> world" where
  "GetAnonID sha256_hex12 m w patientID0 patientName0 patientDOB0 =
     (let patientID = TrimSpace patientID0;
          patientName = TrimSpace patientName0;
          patientDOB = TrimSpace patientDOB0
      in
      if IsValidIdentity patientName patientDOB then
        GetAnonID_identity m w patientID
          (CreateIdentityHash sha256_hex12 patientName patientDOB (salt m))
      else if patientID \<noteq> [] then
        GetAnonID_pid m w patientID
      else
        (let g = generateID m
         in ((fst g, MatchNone), snd g, save_mapper (snd g) w)))"



section \<open>Progress tracker (package progress)\<close>

definition StatusSuccess :: string where "StatusSuccess = ''success''"
definition StatusError :: string where "StatusError = ''error''"

record Tracker =
  progressFile :: string
  processed :: "string \<rightharpoonup> FileEntry"

definition load_tracker :: "Tracker \<Rightarrow> world \<Rightarrow> Tracker" where
  "load_tracker t w =
     (case files w (progressFile t) of
        None \<Rightarrow> t
      | Some Unparseable \<Rightarrow> t
      | Some (MappingDoc _) \<Rightarrow> t\<lparr>processed := Map.empty\<rparr>
      | Some (ProgressDoc fs) \<Rightarrow> t\<lparr>processed := fs\<rparr>)"

definition NewTracker :: "string \<Rightarrow> world \<Rightarrow> Tracker" where
  "NewTracker pf w =
     (let t = \<lparr>progressFile = pf, processed = Map.empty\<rparr>
      in if pf \<noteq> [] then load_tracker t w else t)"

definition save_tracker :: "Tracker \<Rightarrow> world \<Rightarrow> world" where
  "save_tracker t w =
     (if progressFile t = [] then w
      else if write_fails w (progressFile t) then w
      else w\<lparr>files := (files w)(progressFile t \<mapsto> ProgressDoc (processed t))\<rparr>)"

definition fileHash :: "(int \<Rightarrow> int \<Rightarrow> string) \<Rightarrow> world \<Rightarrow> string \<Rightarrow> string" where
  "fileHash md5_hex8 w filePath =
     (case stat w filePath of
        None \<Rightarrow> []
      | Some (sz, mtime) \<Rightarrow> md5_hex8 sz mtime)"

definition IsProcessed :: "(int \<Rightarrow> int \<Rightarrow> string) \<Rightarrow> Tracker \<Rightarrow> world \<Rightarrow> string \<Rightarrow> bool" where
  "IsProcessed md5_hex8 t w filePath =
     (case processed t filePath of
        None \<Rightarrow> False
      | Some entry \<Rightarrow>
          if Status entry \<noteq> StatusSuccess then False
          else Hash entry = fileHash md5_hex8 w filePath)"

definition MarkSuccess ::
  "(int \<Rightarrow> int \<Rightarrow> string) \<Rightarrow> Tracker \<Rightarrow> world \<Rightarrow> string \<Rightarrow> string \<Rightarrow> Tracker \<times> world" where
  "MarkSuccess md5_hex8 t w filePath outputPath =
     (let t1 = t\<lparr>processed := (processed t)(filePath \<mapsto>
                 \<lparr>Status = StatusSuccess, Hash = fileHash md5_hex8 w filePath,
                  Output = outputPath, Error = []\<rparr>)\<rparr>
      in (t1, save_tracker t1 w))"

definition MarkError ::
  "(int \<Rightarrow> int \<Rightarrow> string) \<Rightarrow> Tracker \<Rightarrow> world \<Rightarrow> string \<Rightarrow> string \<Rightarrow> Tracker \<times> world" where
  "MarkError md5_hex8 t w filePath errorMsg =
     (let t1 = t\<lparr>processed := (processed t)(filePath \<mapsto>
                 \<lparr>Status = StatusError, Hash = fileHash md5_hex8 w filePath,
                  Output = [], Error = errorMsg\<rparr>)\<rparr>
      in (t1, save_tracker t1 w))"

section \<open>Folder pipeline (package anonymizer)\<close>

record PatientGroup =
  Key :: string
  Name :: string
  DOB :: string
  PID :: string
  Files :: "string list"

record Stats =
  Success :: int
  Failed :: int
  Skipped :: int
  IdentityMatched :: int
  PIDMatched :: int
  TotalPatients :: int

definition FindDicomFiles :: "world \<Rightarrow> string list" where
  "FindDicomFiles w = sort (rev (remdups (rev (accepted w))))"

definition ensure_group :: "(string \<times> PatientGroup) list \<Rightarrow> PatientGroup \<Rightarrow> (string \<times> PatientGroup) list" where
  "ensure_group patients g =
     (if map_of patients (Key g) = None then patients @ [(Key g, g)] else patients)"

definition append_file :: "(string \<times> PatientGroup) list \<Rightarrow> string \<Rightarrow> string \<Rightarrow> (string \<times> PatientGroup) list" where
  "append_file patients key filePath =
     map (\<lambda>(k, g). if k = key then (k, g\<lparr>Files := Files g @ [filePath]\<rparr>) else (k, g)) patients"

definition group_key :: "(string \<Rightarrow> string) \<Rightarrow> string \<Rightarrow> string \<Rightarrow> string \<Rightarrow> string \<Rightarrow> string" where
  "group_key sha256_hex12 s name dob pid =
     (if IsValidIdentity name dob then CreateIdentityHash sha256_hex12 name dob s
      else ''PID:'' @ pid)"

definition group_file ::
  "(string \<Rightarrow> string) \<Rightarrow> world \<Rightarrow> string \<Rightarrow> (string \<times> PatientGroup) list \<Rightarrow> string
     \<Rightarrow> (string \<times> PatientGroup) list" where
  "group_file sha256_hex12 w s patients filePath =
     (case metadata w filePath of
        None \<Rightarrow>
          append_file
            (ensure_group patients \<lparr>Key = ''UNKNOWN'', Name = [], DOB = [], PID = [], Files = []\<rparr>)
            ''UNKNOWN'' filePath
      | Some (name, dob, pid0) \<Rightarrow>
          (let pid = (if pid0 = [] then ''UNKNOWN'' else pid0);
               key = group_key sha256_hex12 s name dob pid
           in append_file
                (ensure_group patients \<lparr>Key = key, Name = name, DOB = dob, PID = pid, Files = []\<rparr>)
                key filePath))"

definition patients_map ::
  "(string \<Rightarrow> string) \<Rightarrow> world \<Rightarrow> string list \<Rightarrow> string \<Rightarrow> (string \<times> PatientGroup) list" where
  "patients_map sha256_hex12 w fs s = foldl (group_file sha256_hex12 w s) [] fs"

definition groupFilesByPatient ::
  "(string \<Rightarrow> string) \<Rightarrow> world \<Rightarrow> string list \<Rightarrow> string \<Rightarrow> PatientGroup list \<Rightarrow> bool" where
  "groupFilesByPatient sha256_hex12 w fs s result =
     (mset result = mset (map snd (patients_map sha256_hex12 w fs s)))"


record Config =
  InputFolder :: string
  MappingFile :: string
  Salt :: string
  RedactRows :: int
  DryRun :: bool
  RetryFailed :: bool
  Recursive :: bool
  ProcessMetadata :: bool
  ProcessUltrasound :: bool

record dry_acc =
  identityCount :: int
  pidCount :: int
  totalFiles :: int
  acc_mapper :: PseudonymizationMapper
  acc_world :: world

definition dryRun_patient :: "(string \<Rightarrow> string) \<Rightarrow> dry_acc \<Rightarrow> PatientGroup \<Rightarrow> dry_acc" where
  "dryRun_patient sha256_hex12 a patient =
     (let r = GetAnonID sha256_hex12 (acc_mapper a) (acc_world a) (PID patient) (Name patient) (DOB patient);
          method = snd (fst r);
          a1 = a\<lparr>totalFiles := totalFiles a + int (length (Files patient)),
                 acc_mapper := fst (snd r), acc_world := snd (snd r)\<rparr>
      in if method = MatchIdentity then a1\<lparr>identityCount := identityCount a1 + 1\<rparr>
         else a1\<lparr>pidCount := pidCount a1 + 1\<rparr>)"

definition dryRun ::
  "(string \<Rightarrow> string) \<Rightarrow> PatientGroup list \<Rightarrow> PseudonymizationMapper \<Rightarrow> world
     \<Rightarrow> Stats \<times> PseudonymizationMapper \<times> world" where
  "dryRun sha256_hex12 patients mapper w =
     (let a = foldl (dryRun_patient sha256_hex12)
                \<lparr>identityCount = 0, pidCount = 0, totalFiles = 0, acc_mapper = mapper, acc_world = w\<rparr>
                patients
      in (\<lparr>Success = 0, Failed = 0, Skipped = totalFiles a, IdentityMatched = identityCount a,
           PIDMatched = pidCount a, TotalPatients = int (length patients)\<rparr>,
          acc_mapper a, acc_world a))"

definition ProcessFolder_DryRun ::
  "(string \<Rightarrow> string) \<Rightarrow> Config \<Rightarrow> world \<Rightarrow> PatientGroup list
     \<Rightarrow> Stats \<times> PseudonymizationMapper \<times> world" where
  "ProcessFolder_DryRun sha256_hex12 cfg w patients =
     (let mapper = NewPseudonymizationMapper (MappingFile cfg) (Salt cfg) w;
          fs = FindDicomFiles w
      in if fs = [] then
           (\<lparr>Success = 0, Failed = 0, Skipped = 0, IdentityMatched = 0, PIDMatched = 0,
             TotalPatients = 0\<rparr>, mapper, w)
         else dryRun sha256_hex12 patients mapper w)"



text \<open>A sequence of \<open>GetAnonID\<close> calls on one mapper, each given by its three arguments.\<close>

definition GetAnonID_seq ::
  "(string \<Rightarrow> string) \<Rightarrow> PseudonymizationMapper \<times> world \<Rightarrow> (string \<times> string \<times> string) list
     \<Rightarrow> PseudonymizationMapper \<times> world" where
  "GetAnonID_seq sha256_hex12 mw calls =
     foldl (\<lambda>(m, w) (pid, name, dob). snd (GetAnonID sha256_hex12 m w pid name dob)) mw calls"



section \<open>Pixel redaction (internal/anonymizer/ultrasound.go)\<close>

type_synonym byte = "8 word"

datatype PixelValue =
    NativeFrames "int list list option list"
  | RawBytes "byte list"
  | OtherValue

record Dataset =
  Rows :: "int option"
  Columns :: "int option"
  SamplesPerPixel :: "int option"
  BitsAllocated :: "int option"
  PixelData :: "PixelValue option"

datatype redact_error = NoPixelData | NoRowsTag | NoColumnsTag

definition getIntValue :: "int option \<Rightarrow> int" where
  "getIntValue elem = (case elem of None \<Rightarrow> 0 | Some v \<Rightarrow> v)"

definition zero_prefix :: "nat \<Rightarrow> 'a::zero list \<Rightarrow> 'a list" where
  "zero_prefix n v = foldl (\<lambda>u i. u[i := 0]) v [0..<n]"

definition redactFrame :: "int list list option \<Rightarrow> int \<Rightarrow> int \<Rightarrow> int list list option" where
  "redactFrame f cols redactRows =
     (case f of
        None \<Rightarrow> None
      | Some d \<Rightarrow>
          (let pixelsToRedact = min (redactRows * cols) (int (length d))
           in Some (foldl (\<lambda>u i. u[i := map (\<lambda>_. 0) (u ! i)]) d [0..<nat pixelsToRedact])))"

definition redactValue :: "PixelValue \<Rightarrow> int \<Rightarrow> int \<Rightarrow> int \<Rightarrow> int \<Rightarrow> PixelValue" where
  "redactValue pixelInfo cols samples bytesPerSample redactRows =
     (case pixelInfo of
        NativeFrames frames \<Rightarrow> NativeFrames (map (\<lambda>fr. redactFrame fr cols redactRows) frames)
      | RawBytes v \<Rightarrow>
          (let bytesPerRow = cols * samples * bytesPerSample;
               redactBytes = min (redactRows * bytesPerRow) (int (length v))
           in RawBytes (zero_prefix (nat redactBytes) v))
      | OtherValue \<Rightarrow> OtherValue)"

definition redactPixels :: "Dataset \<Rightarrow> int \<Rightarrow> redact_error + Dataset" where
  "redactPixels ds redactRows =
     (case PixelData ds of
        None \<Rightarrow> Inl NoPixelData
      | Some pixelInfo \<Rightarrow>
          (case Rows ds of
             None \<Rightarrow> Inl NoRowsTag
           | Some _ \<Rightarrow>
               (case Columns ds of
                  None \<Rightarrow> Inl NoColumnsTag
                | Some cols \<Rightarrow>
                    (let samples = (if getIntValue (SamplesPerPixel ds) = 0 then 1
                                    else getIntValue (SamplesPerPixel ds));
                         bitsAlloc = (if getIntValue (BitsAllocated ds) = 0 then 8
                                      else getIntValue (BitsAllocated ds));
                         bytesPerSample = go_div bitsAlloc 8
                     in Inr (ds\<lparr>PixelData :=
                          Some (redactValue pixelInfo cols samples bytesPerSample redactRows)\<rparr>)))))"


section \<open>Example inputs\<close>

definition empty_world :: world where
  "empty_world = \<lparr>files = Map.empty, write_fails = (\<lambda>_. False), stat = Map.empty,
                   metadata = Map.empty, accepted = []\<rparr>"

definition one_file_world :: world where
  "one_file_world = empty_world\<lparr>
     metadata := [''in/a.dcm'' \<mapsto> (''John Smith'', ''19800101'', ''P1'')],
     accepted := [''in/a.dcm'']\<rparr>"


definition dry_config :: Config where
  "dry_config = \<lparr>InputFolder = ''in'', MappingFile = ''patient_mapping.json'', Salt = ''s'',
     RedactRows = 75, DryRun = True, RetryFailed = False, Recursive = True,
     ProcessMetadata = True, ProcessUltrasound = True\<rparr>"


chapter \<open>Properties\<close>

section \<open>Thresholds\<close>

lemma go_div_nonneg: "0 \<le> a \<Longrightarrow> 0 < b \<Longrightarrow> go_div a b = a div b"
  by (simp add: go_div_def)

lemma go_div_nonpos: "a \<le> 0 \<Longrightarrow> 0 < b \<Longrightarrow> go_div a b \<le> 0"
  by (auto simp: go_div_def div_int_pos_iff)

text \<open>
  C8, as the specification states it, fails at \<open>MAXVAL = 7\<close> (3-bit samples): the
  specification's addend \<open>(7+1)/16 = 0\<close> gives \<open>T1 = 1\<close>, the code bounds the addend
  below by 1 and returns \<open>T1 = 2\<close>.
\<close>

theorem C8_thresholds_small_maxval_counterexample:
  "calculateThresholds 7 0 = (2, 2, 3) \<and> spec_thresholds 7 = (1, 2, 3)
   \<and> calculateThresholds 7 0 \<noteq> spec_thresholds 7"
  by (simp add: calculateThresholds_def spec_thresholds_def clamp_def go_div_def Let_def)

text \<open>
  C8, amended: for \<open>NEAR = 0\<close> and \<open>MAXVAL \<ge> 128\<close> the thresholds are
  \<open>T1 = clamp(1 + min(MAXVAL,4095)/256, 1, MAXVAL)\<close>,
  \<open>T2 = clamp(1 + min(MAXVAL,4095)/64, T1, MAXVAL)\<close>,
  \<open>T3 = clamp(1 + min(MAXVAL,4095)/16, T2, MAXVAL)\<close>; for \<open>MAXVAL < 128\<close> the same
  clamp structure is used with the addends \<open>max((MAXVAL+1)/16, 1)\<close>,
  \<open>max((MAXVAL+1)/8, 1)\<close>, \<open>max((MAXVAL+1)/4, 1)\<close>.
\<close>

theorem C8_thresholds_amended:
  "(128 \<le> maxVal \<longrightarrow>
      calculateThresholds maxVal 0 =
        (let factor = min maxVal 4095;
             t1 = clamp (1 + factor div 256) 1 maxVal;
             t2 = clamp (1 + factor div 64) t1 maxVal;
             t3 = clamp (1 + factor div 16) t2 maxVal
         in (t1, t2, t3)))
   \<and> (maxVal < 128 \<longrightarrow>
      calculateThresholds maxVal 0 =
        (let t1 = clamp (1 + max ((maxVal + 1) div 16) 1) 1 maxVal;
             t2 = clamp (1 + max ((maxVal + 1) div 8) 1) t1 maxVal;
             t3 = clamp (1 + max ((maxVal + 1) div 4) 1) t2 maxVal
         in (t1, t2, t3)))"
proof (intro conjI impI)
  assume big: "128 \<le> maxVal"
  then have f: "(if maxVal > 4095 then 4095 else maxVal) = min maxVal 4095"
    by simp
  have "0 \<le> min maxVal 4095" using big by simp
  then show "calculateThresholds maxVal 0 =
        (let factor = min maxVal 4095;
             t1 = clamp (1 + factor div 256) 1 maxVal;
             t2 = clamp (1 + factor div 64) t1 maxVal;
             t3 = clamp (1 + factor div 16) t2 maxVal
         in (t1, t2, t3))"
    using big by (simp add: calculateThresholds_def f go_div_nonneg Let_def)
next
  assume small: "maxVal < 128"
  have m: "max (go_div (maxVal + 1) d) 1 = max ((maxVal + 1) div d) 1" if "0 < d" for d
  proof (cases "0 \<le> maxVal + 1")
    case True
    then show ?thesis using that by (simp add: go_div_nonneg)
  next
    case False
    then have "go_div (maxVal + 1) d \<le> 0"
      using that by (simp add: go_div_nonpos)
    moreover have "(maxVal + 1) div d < 0"
      using False that by (simp add: pos_imp_zdiv_neg_iff)
    ultimately show ?thesis by simp
  qed
  show "calculateThresholds maxVal 0 =
        (let t1 = clamp (1 + max ((maxVal + 1) div 16) 1) 1 maxVal;
             t2 = clamp (1 + max ((maxVal + 1) div 8) 1) t1 maxVal;
             t3 = clamp (1 + max ((maxVal + 1) div 4) 1) t2 maxVal
         in (t1, t2, t3))"
    using small by (simp add: calculateThresholds_def m Let_def)
qed

theorem C8_thresholds_amended_witness:
  "(128::int) \<le> 255 \<and> calculateThresholds 255 0 = (1, 4, 16)
   \<and> (7::int) < 128 \<and> calculateThresholds 7 0 = (2, 2, 3)"
  using C8_thresholds_amended [of 255] C8_thresholds_amended [of 7]
  by (simp add: clamp_def Let_def)

section \<open>Pseudonymization mapper\<close>

lemmas GetAnonID_defs = GetAnonID_def GetAnonID_identity_def GetAnonID_pid_def generateID_def
  updateReverseMap_def set_pid_def set_identity_def Let_def

lemma GetAnonID_salt:
  "GetAnonID H m w pid name dob = (r, m', w') \<Longrightarrow> salt m' = salt m"
  by (auto simp: GetAnonID_defs split: if_splits option.splits)

lemma GetAnonID_pidMap_mono:
  "GetAnonID H m w pid name dob = (r, m', w') \<Longrightarrow> pidMap m p = Some x \<Longrightarrow> pidMap m' p = Some x"
  by (auto simp: GetAnonID_defs split: if_splits option.splits)

lemma GetAnonID_identityMap_mono:
  "GetAnonID H m w pid name dob = (r, m', w') \<Longrightarrow> identityMap m h = Some x \<Longrightarrow> identityMap m' h = Some x"
  by (auto simp: GetAnonID_defs split: if_splits option.splits)

lemma GetAnonID_seq_Nil: "GetAnonID_seq H mw [] = mw"
  by (simp add: GetAnonID_seq_def)

lemma GetAnonID_seq_Cons:
  "GetAnonID_seq H (m, w) ((pid, name, dob) # cs) = GetAnonID_seq H (snd (GetAnonID H m w pid name dob)) cs"
  by (simp add: GetAnonID_seq_def)

lemma GetAnonID_seq_keeps:
  "GetAnonID_seq H (m, w) cs = (m', w') \<Longrightarrow>
     salt m' = salt m \<and> (pidMap m p = Some x \<longrightarrow> pidMap m' p = Some x)"
proof (induction cs arbitrary: m w)
  case Nil
  then show ?case by (simp add: GetAnonID_seq_Nil)
next
  case (Cons c cs)
  obtain pid name dob where c: "c = (pid, name, dob)" by (cases c) auto
  obtain r m1 w1 where g: "GetAnonID H m w pid name dob = (r, m1, w1)"
    by (cases "GetAnonID H m w pid name dob") auto
  from Cons.prems have "GetAnonID_seq H (m1, w1) cs = (m', w')"
    by (simp add: c GetAnonID_seq_Cons g)
  from Cons.IH [OF this] GetAnonID_salt [OF g] GetAnonID_pidMap_mono [OF g]
  show ?case by auto
qed

lemma GetAnonID_pid_only:
  assumes "GetAnonID H m w pid name dob = ((X, meth), m', w')"
    and "\<not> IsValidIdentity (TrimSpace name) (TrimSpace dob)"
    and "TrimSpace pid \<noteq> []"
  shows "pidMap m' (TrimSpace pid) = Some X \<and> meth = MatchPID"
  using assms by (auto simp: GetAnonID_defs split: if_splits option.splits)

lemma GetAnonID_adopts_pid:
  assumes "IsValidIdentity (TrimSpace name) (TrimSpace dob)"
    and "pidMap m (TrimSpace pid) = Some X"
    and "identityMap m (CreateIdentityHash H (TrimSpace name) (TrimSpace dob) (salt m)) \<in> {None, Some X}"
  shows "\<exists>m' w'. GetAnonID H m w pid name dob = ((X, MatchIdentity), m', w')
           \<and> identityMap m' (CreateIdentityHash H (TrimSpace name) (TrimSpace dob) (salt m)) = Some X"
  using assms by (auto simp: GetAnonID_defs split: if_splits option.splits)

text \<open>
  C1, amended. Let an earlier \<open>GetAnonID\<close> call with a non-empty (trimmed) patient ID and an
  invalid identity be assigned \<open>X\<close>. After any further calls, a call that supplies a valid
  identity \<open>(name, dob)\<close> with the same patient ID returns \<open>X\<close> with match method
  \<open>identity\<close> and leaves \<open>identity_hash(name, dob, salt) \<mapsto> X\<close> in the identity map,
  provided the identity map does not already map that hash to another anonymous id when the
  call is made. (The identity map is consulted before the pid map.)
\<close>

theorem C1_pid_then_identity_amended:
  assumes first: "GetAnonID H m0 w0 pid name1 dob1 = ((X, meth1), m1, w1)"
    and invalid1: "\<not> IsValidIdentity (TrimSpace name1) (TrimSpace dob1)"
    and pid: "TrimSpace pid \<noteq> []"
    and between: "GetAnonID_seq H (m1, w1) calls = (m2, w2)"
    and valid: "IsValidIdentity (TrimSpace name) (TrimSpace dob)"
    and free: "identityMap m2 (CreateIdentityHash H (TrimSpace name) (TrimSpace dob) (salt m0)) \<in> {None, Some X}"
  shows "\<exists>m3 w3. GetAnonID H m2 w2 pid name dob = ((X, MatchIdentity), m3, w3)
           \<and> identityMap m3 (CreateIdentityHash H (TrimSpace name) (TrimSpace dob) (salt m0)) = Some X"
proof -
  have p1: "pidMap m1 (TrimSpace pid) = Some X"
    using GetAnonID_pid_only [OF first invalid1 pid] by simp
  have s1: "salt m1 = salt m0" using GetAnonID_salt [OF first] .
  have "salt m2 = salt m1" "pidMap m2 (TrimSpace pid) = Some X"
    using GetAnonID_seq_keeps [OF between, of "TrimSpace pid" X] p1 by auto
  with s1 free valid show ?thesis
    using GetAnonID_adopts_pid [of name dob m2 pid X H w2] by simp
qed

lemma valid_John: "IsValidIdentity ''John Smith'' ''19800101''" by code_simp
lemma invalid_empty: "\<not> IsValidIdentity [] []" by code_simp
lemma trim_examples:
  "TrimSpace ''P1'' = ''P1''" "TrimSpace ''P2'' = ''P2''" "TrimSpace [] = []"
  "TrimSpace ''John Smith'' = ''John Smith''" "TrimSpace ''19800101'' = ''19800101''"
  by code_simp+
lemma Sprintf_06d_examples: "Sprintf_06d 1 = ''000001''" "Sprintf_06d 2 = ''000002''"
  by code_simp+

lemmas example_simps = valid_John invalid_empty trim_examples Sprintf_06d_examples
  NewPseudonymizationMapper_def save_mapper_def empty_world_def

text \<open>
  C1 as stated fails: the identity \<open>(John Smith, 19800101)\<close> is first seen without a patient
  ID and gets \<open>ANON-000001\<close>; then the patient ID \<open>P1\<close> alone is assigned
  \<open>X = ANON-000002\<close>; the later call with the valid identity and \<open>P1\<close> finds the identity
  hash in the identity map and returns \<open>ANON-000001\<close>, not \<open>X\<close>.
\<close>

theorem C1_identity_mapped_elsewhere_counterexample:
  "\<forall>H. (let m0 = NewPseudonymizationMapper [] ''s'' empty_world;
            c1 = GetAnonID H m0 empty_world [] ''John Smith'' ''19800101'';
            c2 = GetAnonID H (fst (snd c1)) (snd (snd c1)) ''P1'' [] [];
            c3 = GetAnonID H (fst (snd c2)) (snd (snd c2)) ''P1'' ''John Smith'' ''19800101''
        in fst c2 = (''ANON-000002'', MatchPID) \<and> fst c3 = (''ANON-000001'', MatchIdentity))"
  by (simp add: GetAnonID_defs example_simps)

text \<open>Witness for C1, amended: a fresh mapper, \<open>P1\<close> alone, then \<open>P1\<close> with a valid identity.\<close>

theorem C1_pid_then_identity_amended_witness:
  "\<forall>H. (let m0 = NewPseudonymizationMapper [] ''s'' empty_world;
            c1 = GetAnonID H m0 empty_world ''P1'' [] [];
            m1 = fst (snd c1); w1 = snd (snd c1);
            h = CreateIdentityHash H (TrimSpace ''John Smith'') (TrimSpace ''19800101'') (salt m0)
        in fst c1 = (''ANON-000001'', MatchPID)
           \<and> \<not> IsValidIdentity (TrimSpace []) (TrimSpace []) \<and> TrimSpace ''P1'' \<noteq> []
           \<and> GetAnonID_seq H (m1, w1) [] = (m1, w1)
           \<and> IsValidIdentity (TrimSpace ''John Smith'') (TrimSpace ''19800101'')
           \<and> identityMap m1 h \<in> {None, Some ''ANON-000001''}
           \<and> (\<exists>m3 w3. GetAnonID H m1 w1 ''P1'' ''John Smith'' ''19800101''
                          = ((''ANON-000001'', MatchIdentity), m3, w3)
                        \<and> identityMap m3 h = Some ''ANON-000001''))"
proof
  fix H
  define m0 where "m0 = NewPseudonymizationMapper [] ''s'' empty_world"
  define c1 where "c1 = GetAnonID H m0 empty_world ''P1'' [] []"
  define m1 where "m1 = fst (snd c1)"
  define w1 where "w1 = snd (snd c1)"
  define h where "h = CreateIdentityHash H (TrimSpace ''John Smith'') (TrimSpace ''19800101'') (salt m0)"
  have r1: "fst c1 = (''ANON-000001'', MatchPID)"
    by (simp add: c1_def m0_def GetAnonID_defs example_simps)
  then have first: "GetAnonID H m0 empty_world ''P1'' [] [] = ((''ANON-000001'', MatchPID), m1, w1)"
    by (simp add: c1_def m1_def w1_def prod_eq_iff)
  have inv: "\<not> IsValidIdentity (TrimSpace []) (TrimSpace [])" and pid: "TrimSpace ''P1'' \<noteq> []"
    by (simp_all add: example_simps)
  have seq: "GetAnonID_seq H (m1, w1) [] = (m1, w1)" by (simp add: GetAnonID_seq_Nil)
  have val: "IsValidIdentity (TrimSpace ''John Smith'') (TrimSpace ''19800101'')"
    by (simp add: example_simps)
  have free: "identityMap m1 h \<in> {None, Some ''ANON-000001''}"
    by (simp add: m1_def c1_def m0_def h_def GetAnonID_defs example_simps)
  have "\<exists>m3 w3. GetAnonID H m1 w1 ''P1'' ''John Smith'' ''19800101''
                          = ((''ANON-000001'', MatchIdentity), m3, w3)
                        \<and> identityMap m3 h = Some ''ANON-000001''"
    using C1_pid_then_identity_amended [OF first inv pid seq val free [unfolded h_def]]
    by (simp add: h_def)
  with r1 inv pid seq val free
  show "let m0 = NewPseudonymizationMapper [] ''s'' empty_world;
            c1 = GetAnonID H m0 empty_world ''P1'' [] [];
            m1 = fst (snd c1); w1 = snd (snd c1);
            h = CreateIdentityHash H (TrimSpace ''John Smith'') (TrimSpace ''19800101'') (salt m0)
        in fst c1 = (''ANON-000001'', MatchPID)
           \<and> \<not> IsValidIdentity (TrimSpace []) (TrimSpace []) \<and> TrimSpace ''P1'' \<noteq> []
           \<and> GetAnonID_seq H (m1, w1) [] = (m1, w1)
           \<and> IsValidIdentity (TrimSpace ''John Smith'') (TrimSpace ''19800101'')
           \<and> identityMap m1 h \<in> {None, Some ''ANON-000001''}
           \<and> (\<exists>m3 w3. GetAnonID H m1 w1 ''P1'' ''John Smith'' ''19800101''
                          = ((''ANON-000001'', MatchIdentity), m3, w3)
                        \<and> identityMap m3 h = Some ''ANON-000001'')"
    unfolding Let_def m0_def [symmetric] c1_def [symmetric] m1_def [symmetric] w1_def [symmetric]
      h_def [symmetric]
    by blast
qed

text \<open>
  C3 (reverse map is the exact inverse image of the forward maps) is broken by the branch of
  \<open>GetAnonID\<close> that finds the identity hash already mapped and records a new patient ID in
  the pid map without calling \<open>updateReverseMap\<close>: after \<open>(P1, John Smith, 19800101)\<close> and
  \<open>(P2, John Smith, 19800101)\<close> the pid map sends \<open>P2\<close> to \<open>ANON-000001\<close>, but the reverse
  entry of \<open>ANON-000001\<close> lists only \<open>P1\<close>.
\<close>

theorem C3_second_pid_missing_from_reverse_map:
  "(let m0 = NewPseudonymizationMapper [] ''s'' empty_world;
        c1 = GetAnonID H m0 empty_world ''P1'' ''John Smith'' ''19800101'';
        c2 = GetAnonID H (fst (snd c1)) (snd (snd c1)) ''P2'' ''John Smith'' ''19800101'';
        m2 = fst (snd c2)
    in fst c2 = (''ANON-000001'', MatchIdentity)
       \<and> pidMap m2 ''P2'' = Some ''ANON-000001''
       \<and> map_option PatientIDs (reverseMap m2 ''ANON-000001'') = Some [''P1''])"
  by (simp add: GetAnonID_defs example_simps)

section \<open>Progress tracker\<close>

lemma IsProcessed_iff:
  "IsProcessed md5 t w p \<longleftrightarrow>
     (\<exists>e. processed t p = Some e \<and> Status e = StatusSuccess \<and> Hash e = fileHash md5 w p)"
  by (auto simp: IsProcessed_def split: option.splits)

lemma fileHash_missing: "stat w p = None \<Longrightarrow> fileHash md5 w p = []"
  by (simp add: fileHash_def)

lemma IsProcessed_after_MarkSuccess_missing:
  "stat w p = None \<Longrightarrow> IsProcessed md5 (fst (MarkSuccess md5 t w p out)) (snd (MarkSuccess md5 t w p out)) p"
  by (simp add: IsProcessed_def MarkSuccess_def Let_def fileHash_def save_tracker_def)

text \<open>
  C4 (a file missing on disk is never reported as processed) fails when the stored
  fingerprint is the empty string, which is what \<open>fileHash\<close> returns for a file it cannot
  stat: \<open>MarkSuccess\<close> on a missing file stores the empty fingerprint, and \<open>IsProcessed\<close>
  then compares the empty stored fingerprint with the empty current one and returns true.
\<close>

theorem C4_missing_file_reported_processed:
  "(let t0 = NewTracker ''in/anonymized/.progress.json'' empty_world;
        r = MarkSuccess md5_hex8 t0 empty_world ''in/a.dcm'' ''in/anonymized/ANON-000001/a.dcm''
    in stat (snd r) ''in/a.dcm'' = None
       \<and> IsProcessed md5_hex8 (fst r) (snd r) ''in/a.dcm'')"
  by (simp add: IsProcessed_def MarkSuccess_def Let_def fileHash_def save_tracker_def
      empty_world_def NewTracker_def load_tracker_def)

section \<open>Dry run\<close>

lemma FindDicomFiles_one: "FindDicomFiles one_file_world = [''in/a.dcm'']"
  by (simp add: FindDicomFiles_def one_file_world_def empty_world_def)

lemma patients_map_one:
  "patients_map H one_file_world [''in/a.dcm''] ''s'' =
     [(CreateIdentityHash H ''John Smith'' ''19800101'' ''s'',
       \<lparr>Key = CreateIdentityHash H ''John Smith'' ''19800101'' ''s'', Name = ''John Smith'',
        DOB = ''19800101'', PID = ''P1'', Files = [''in/a.dcm'']\<rparr>)]"
  by (simp add: patients_map_def group_file_def one_file_world_def empty_world_def group_key_def
      valid_John ensure_group_def append_file_def Let_def)

text \<open>
  C2 (a dry run writes nothing and leaves the mapper unchanged) fails on a folder with one
  file and a mapping file path configured: \<open>dryRun\<close> calls \<open>GetAnonID\<close>, which allocates
  \<open>ANON-000001\<close>, changes the in-memory maps and counter, and saves the mapping file. The
  statistics do count the one discovered file as skipped.
\<close>

theorem C2_dry_run_writes_mapping_file:
  "(let ps = [\<lparr>Key = CreateIdentityHash H ''John Smith'' ''19800101'' ''s'', Name = ''John Smith'',
               DOB = ''19800101'', PID = ''P1'', Files = [''in/a.dcm'']\<rparr>];
        m0 = NewPseudonymizationMapper (MappingFile dry_config) (Salt dry_config) one_file_world;
        r = ProcessFolder_DryRun H dry_config one_file_world ps;
        st = fst r; m = fst (snd r); w = snd (snd r)
    in groupFilesByPatient H one_file_world (FindDicomFiles one_file_world) (Salt dry_config) ps
       \<and> files one_file_world ''patient_mapping.json'' = None
       \<and> files w ''patient_mapping.json'' \<noteq> None
       \<and> counter m0 = 0 \<and> counter m = 1
       \<and> pidMap m0 ''P1'' = None \<and> pidMap m ''P1'' = Some ''ANON-000001''
       \<and> Skipped st = 1 \<and> Success st = 0 \<and> Failed st = 0)"
  apply (simp add: Let_def groupFilesByPatient_def FindDicomFiles_one dry_config_def patients_map_one
      ProcessFolder_DryRun_def)
  apply (simp add: dryRun_def dryRun_patient_def GetAnonID_defs valid_John trim_examples
      Sprintf_06d_examples  NewPseudonymizationMapper_def load_mapper_def save_mapper_def
      one_file_world_def empty_world_def)
  done

section \<open>Patient grouping\<close>



lemma FindDicomFiles_set: "set (FindDicomFiles w) = set (accepted w)"
  by (simp add: FindDicomFiles_def)















section \<open>Pixel redaction\<close>

lemma zero_prefix_eq: "n \<le> length v \<Longrightarrow> zero_prefix n v = replicate n 0 @ drop n v"
proof (induction n)
  case 0
  then show ?case by (simp add: zero_prefix_def)
next
  case (Suc n)
  then have "zero_prefix (Suc n) v = (replicate n 0 @ drop n v)[n := 0]"
    by (simp add: zero_prefix_def)
  also have "\<dots> = replicate n 0 @ (drop n v)[0 := 0]"
    by (simp add: list_update_append)
  also have "drop n v = v ! n # drop (Suc n) v"
    using Suc.prems by (simp add: Cons_nth_drop_Suc)
  finally show ?case by (simp add: replicate_app_Cons_same)
qed


lemma redactPixels_raw_zeroes_prefix:
  assumes p: "PixelData ds = Some (RawBytes v)" and r: "Rows ds = Some rows"
    and c: "Columns ds = Some cols"
    and s: "samples = (if getIntValue (SamplesPerPixel ds) = 0 then 1
                       else getIntValue (SamplesPerPixel ds))"
    and b: "bits = (if getIntValue (BitsAllocated ds) = 0 then 8
                    else getIntValue (BitsAllocated ds))"
    and n: "n = nat (min (redactRows * (cols * samples * go_div bits 8)) (int (length v)))"
  shows "redactPixels ds redactRows =
           Inr (ds\<lparr>PixelData := Some (RawBytes (replicate n 0 @ drop n v))\<rparr>)"
proof -
  have "n \<le> length v" using n by simp
  then have "zero_prefix n v = replicate n 0 @ drop n v" by (rule zero_prefix_eq)
  then show ?thesis
    by (simp add: redactPixels_def p r c redactValue_def Let_def s b n)
qed

end
